theory Spec2Isabelle
  imports Complex_Main
begin

section \<open>Strings and exceptions\<close>

text \<open>
  Python strings are modelled as HOL strings; the functions below only compare
  characters with each other and with the colon and the dash.

  The Python code signals failure by raising. Every raise of the modelled functions is a
  value of \<open>py_exception\<close>, and a function that may raise returns
  \<open>py_exception + 'a\<close> with \<open>Inl\<close> for the raised exception.

  \<^item> \<open>HTTPException status_code detail\<close>: FastAPI's exception, raised by the endpoints;
  \<^item> \<open>ClientResponseError status message\<close>: aiohttp's exception, raised by
    \<open>resp.raise_for_status()\<close>;
  \<^item> \<open>ValueError message\<close>: raised by a failed tuple unpacking and by \<open>validate_id\<close>;
  \<^item> \<open>ValidationError message\<close>: pydantic's exception for a field validator that raised;
  \<^item> \<open>AssertionError\<close>: a failed \<open>assert\<close>;
  \<^item> \<open>CancelledError\<close>: asyncio's exception for a cancelled task, a \<open>BaseException\<close> that is
    no \<open>Exception\<close>;
  \<^item> \<open>CollaboratorError kind message\<close>: any other \<open>Exception\<close> raised by an external
    collaborator (storage, database, workflow substrate).
\<close>

datatype failure_kind = UnknownWorkflowId | RpcTimeout | InfrastructureFailure

datatype py_exception =
    HTTPException nat string
  | ClientResponseError nat string
  | ValueError string
  | ValidationError string
  | AssertionError
  | CancelledError
  | CollaboratorError failure_kind string

section \<open>biosim\_runs/models.py\<close>

text \<open>
  Field names carry a short prefix of their class (\<open>sv_\<close>, \<open>run_\<close>, \<open>wr_\<close>), since several
  classes share the field names \<open>id\<close>, \<open>name\<close> and \<open>status\<close>.
\<close>

record BiosimulatorVersion =
  sv_id :: string
  sv_name :: string
  sv_version :: string
  sv_image_url :: string
  sv_image_digest :: string
  sv_created :: string
  sv_updated :: string

datatype BiosimSimulationRunStatus =
    CREATED | QUEUED | RUNNING | SKIPPED | PROCESSING | SUCCEEDED | FAILED
  | RUN_ID_NOT_FOUND | UNKNOWN

record BiosimSimulationRun =
  run_id :: string
  run_name :: string
  run_simulator_version :: BiosimulatorVersion
  run_status :: BiosimSimulationRunStatus
  run_error_message :: "string option"

text \<open>\<open>str.find\<close> for a needle of one character: the lowest index, or \<open>-1\<close>.\<close>

fun str_find :: "string \<Rightarrow> char \<Rightarrow> int" where
  "str_find [] c = - 1"
| "str_find (x # xs) c =
     (if x = c then 0 else (let r = str_find xs c in if r < 0 then - 1 else r + 1))"

text \<open>The field validator of \<open>BiosimSimulationRun.id\<close>.\<close>

definition validate_id :: "string \<Rightarrow> py_exception + string" where
  "validate_id v =
     (if str_find v CHR ''-'' \<ge> 0
      then Inl (ValueError ''id must not contain any dashes, looks like a uuid'')
      else Inr v)"

text \<open>
  Constructing a \<open>BiosimSimulationRun\<close>: pydantic runs the field validator on \<open>id\<close> and
  turns the \<open>ValueError\<close> it raises into a \<open>ValidationError\<close>; otherwise the object holds
  the validator's return value as its id.
\<close>

definition new_BiosimSimulationRun ::
  "string \<Rightarrow> string \<Rightarrow> BiosimulatorVersion \<Rightarrow> BiosimSimulationRunStatus \<Rightarrow> string option
     \<Rightarrow> py_exception + BiosimSimulationRun" where
  "new_BiosimSimulationRun i n sv st err =
     (case validate_id i of
        Inl (ValueError msg) \<Rightarrow> Inl (ValidationError msg)
      | Inl e \<Rightarrow> Inl e
      | Inr v \<Rightarrow> Inr \<lparr>run_id = v, run_name = n, run_simulator_version = sv,
                      run_status = st, run_error_message = err\<rparr>)"



section \<open>api/main.py\<close>

subsection \<open>Classes the endpoints construct\<close>

text \<open>
  Modelled from the spec: \<open>OmexFile\<close> (biosim\_omex/models.py is not among the source
  files) is the spec's ArchiveRecord
  \<open>{content_hash, storage_uri, filename, size, created_at}\<close>.
\<close>

record OmexFile =
  of_content_hash :: string
  of_storage_uri :: string
  of_filename :: string
  of_size :: nat
  of_created_at :: string

text \<open>
  Modelled from the spec: \<open>CompareSettings\<close> (declared in biosim\_verify, which is not
  among the source files) is the spec's ComparisonSettings; its fields are the keyword
  arguments the endpoints construct it with. Python floats are modelled as reals.
\<close>

record CompareSettings =
  cs_user_description :: string
  cs_include_outputs :: bool
  cs_rel_tol :: real
  cs_abs_tol_min :: real
  cs_abs_tol_scale :: real
  cs_observables :: "string list option"

text \<open>
  Modelled from the spec: \<open>VerifyWorkflowStatus\<close> (biosim\_verify/models.py is not among
  the source files) has the spec's values \<open>{PENDING, RUNNING, COMPLETED, FAILED}\<close>; the
  endpoints only ever write \<open>PENDING\<close>.
\<close>

datatype VerifyWorkflowStatus = PENDING | WF_RUNNING | COMPLETED | WF_FAILED

text \<open>
  Modelled from the spec: \<open>VerifyWorkflowOutput\<close> (biosim\_verify/models.py is not among
  the source files), the first snapshot of the spec's VerificationState; its fields are
  the keyword arguments the endpoints construct it with.
\<close>

record VerifyWorkflowOutput =
  vo_compare_settings :: CompareSettings
  vo_workflow_status :: VerifyWorkflowStatus
  vo_timestamp :: string
  vo_workflow_id :: string
  vo_workflow_run_id :: "string option"

text \<open>
  Modelled from the spec: the inputs of the two verification workflows (declared in
  biosim\_verify, which is not among the source files), with the keyword arguments
  the endpoints construct them with as fields.
\<close>

record OmexVerifyWorkflowInput =
  wi_omex_file :: OmexFile
  wi_requested_simulators :: "BiosimulatorVersion list"
  wi_compare_settings :: CompareSettings
  wi_cache_buster :: string

record RunsVerifyWorkflowInput =
  ri_biosimulations_run_ids :: "string list"
  ri_compare_settings :: CompareSettings

subsection \<open>The collaborators of the endpoints\<close>

text \<open>
  What the \<open>try\<close> of \<open>get_verify_output\<close> meets when the query raises. Of an instance of
  \<open>Exception\<close> the handler uses nothing but \<open>str(e2)\<close>: the exception is given by its
  class name and by that text, both data of the exception object and computed by no
  function here. An exception that is no \<open>Exception\<close> (\<open>asyncio.CancelledError\<close>) is not
  caught by \<open>except Exception\<close>.
\<close>

datatype raised_in_try =
    RaisedException string string
  | RaisedCancelledError

text \<open>
  The workflow substrate's client: \<open>start_workflow\<close> by workflow id, and the query
  \<open>get_output\<close> by workflow id. Each either raises or returns.
\<close>

record WorkflowHandle =
  wh_id :: string
  wh_run_id :: "string option"

record temporal_client =
  tc_start_workflow :: "string \<Rightarrow> py_exception + WorkflowHandle"
  tc_query_get_output :: "string \<Rightarrow> raised_in_try + VerifyWorkflowOutput"

text \<open>
  What the endpoints read from their surroundings (dependencies.py, the uploaded file,
  \<open>uuid.uuid4()\<close>, the clock):
  \<^item> \<open>dep_file_service\<close>, \<open>dep_omex_database\<close>: whether the getter returns an object
    rather than \<open>None\<close>;
  \<^item> \<open>dep_cached_omex_file\<close>: what awaiting \<open>get_cached_omex_file_from_upload\<close> gives
    for the uploaded file;
  \<^item> \<open>dep_biosim_service\<close>: \<open>None\<close>, or what awaiting \<open>get_simulator_versions()\<close> gives;
  \<^item> \<open>dep_temporal_client\<close>: \<open>None\<close>, or the client;
  \<^item> \<open>dep_uuid4\<close>: the text of the UUID drawn for this request;
  \<^item> \<open>dep_now\<close>: \<open>str(datetime.now(UTC))\<close>.
\<close>

record dependencies =
  dep_file_service :: bool
  dep_omex_database :: bool
  dep_cached_omex_file :: "py_exception + OmexFile"
  dep_biosim_service :: "(py_exception + BiosimulatorVersion list) option"
  dep_temporal_client :: "temporal_client option"
  dep_uuid4 :: string
  dep_now :: string

text \<open>The calls an endpoint makes to the workflow substrate, in order.\<close>

datatype temporal_call =
    StartOmexVerifyWorkflow string OmexVerifyWorkflowInput
  | StartRunsVerifyWorkflow string RunsVerifyWorkflowInput
  | QueryGetOutput string

subsection \<open>Resolving the requested simulators\<close>

text \<open>\<open>str.split(sep)\<close> for a separator of one character: never the empty list.\<close>

fun str_split :: "char \<Rightarrow> string \<Rightarrow> string list" where
  "str_split c [] = [[]]"
| "str_split c (x # xs) =
     (if x = c then [] # str_split c xs
      else (case str_split c xs of
              w # ws \<Rightarrow> (x # w) # ws
            | [] \<Rightarrow> [[x]]))"

text \<open>
  The loop of the \<open>name:version\<close> branch: the first entry matching both, then
  \<open>break\<close>.
\<close>

fun find_name_version ::
  "BiosimulatorVersion list \<Rightarrow> string \<Rightarrow> string \<Rightarrow> BiosimulatorVersion option" where
  "find_name_version [] name version = None"
| "find_name_version (sv # svs) name version =
     (if sv_id sv = name \<and> sv_version sv = version then Some sv
      else find_name_version svs name version)"

text \<open>
  The loop of the \<open>name\<close> branch: every matching entry overwrites
  \<open>simulator_version\<close>, with no \<open>break\<close>.
\<close>

fun find_name ::
  "BiosimulatorVersion list \<Rightarrow> string \<Rightarrow> BiosimulatorVersion option
     \<Rightarrow> BiosimulatorVersion option" where
  "find_name [] simulator simulator_version = simulator_version"
| "find_name (sv # svs) simulator simulator_version =
     find_name svs simulator (if sv_id sv = simulator then Some sv else simulator_version)"

text \<open>
  The body of the loop over \<open>simulators\<close> for one requested simulator. The unpacking
  \<open>name, version = simulator.split(":")\<close> raises \<open>ValueError\<close> unless the split has
  exactly two parts.
\<close>

definition resolve_simulator ::
  "BiosimulatorVersion list \<Rightarrow> string \<Rightarrow> py_exception + BiosimulatorVersion" where
  "resolve_simulator all_simulator_versions simulator =
     (if CHR '':'' \<in> set simulator then
        (case str_split CHR '':'' simulator of
           [name, version] \<Rightarrow>
             (case find_name_version all_simulator_versions name version of
                Some sv \<Rightarrow> Inr sv
              | None \<Rightarrow> Inl (HTTPException 400 (''Simulator '' @ simulator @ '' not found.'')))
         | _ \<Rightarrow> Inl (ValueError ''too many values to unpack (expected 2)''))
      else
        (case find_name all_simulator_versions simulator None of
           Some sv \<Rightarrow> Inr sv
         | None \<Rightarrow> Inl (HTTPException 400 (''Simulator '' @ simulator @ '' not found.''))))"

text \<open>The loop over \<open>simulators\<close>: it stops at the first raise.\<close>

fun resolve_simulators ::
  "BiosimulatorVersion list \<Rightarrow> string list \<Rightarrow> BiosimulatorVersion list
     \<Rightarrow> py_exception + BiosimulatorVersion list" where
  "resolve_simulators all_simulator_versions [] simulator_versions = Inr simulator_versions"
| "resolve_simulators all_simulator_versions (simulator # simulators) simulator_versions =
     (case resolve_simulator all_simulator_versions simulator of
        Inl e \<Rightarrow> Inl e
      | Inr sv \<Rightarrow>
          resolve_simulators all_simulator_versions simulators (simulator_versions @ [sv]))"

subsection \<open>The endpoints\<close>

text \<open>The query parameters of \<open>POST /verify/omex\<close> and \<open>POST /verify/runs\<close>.\<close>

record verify_omex_params =
  vq_workflow_id_prefix :: string
  vq_simulators :: "string list"
  vq_include_outputs :: bool
  vq_user_description :: string
  vq_rel_tol :: real
  vq_abs_tol_min :: real
  vq_abs_tol_scale :: real
  vq_cache_buster :: string
  vq_observables :: "string list option"

record verify_runs_params =
  rq_workflow_id_prefix :: string
  rq_biosimulations_run_ids :: "string list"
  rq_include_outputs :: bool
  rq_user_description :: string
  rq_rel_tol :: real
  rq_abs_tol_min :: real
  rq_abs_tol_scale :: real
  rq_observables :: "string list option"

text \<open>
  An endpoint returns the calls it made to the workflow substrate and either the
  exception it raised or its return value.

  \<open>start_and_report\<close> is the part the two posting endpoints have in common, line for
  line: the assertion on the client, \<open>start_workflow\<close> under the workflow id, the
  assertion on the handle's id, and the initial output.
\<close>

definition start_and_report ::
  "dependencies \<Rightarrow> string \<Rightarrow> CompareSettings \<Rightarrow> temporal_call
     \<Rightarrow> temporal_call list \<times> (py_exception + VerifyWorkflowOutput)" where
  "start_and_report deps workflow_id compare_settings call =
     (case dep_temporal_client deps of
        None \<Rightarrow> ([], Inl AssertionError)
      | Some client \<Rightarrow>
          (case tc_start_workflow client workflow_id of
             Inl e \<Rightarrow> ([call], Inl e)
           | Inr workflow_handle \<Rightarrow>
               if wh_id workflow_handle \<noteq> workflow_id then ([call], Inl AssertionError)
               else ([call],
                     Inr \<lparr>vo_compare_settings = compare_settings,
                          vo_workflow_status = PENDING,
                          vo_timestamp = dep_now deps,
                          vo_workflow_id = workflow_id,
                          vo_workflow_run_id = wh_run_id workflow_handle\<rparr>)))"

definition verify_omex ::
  "dependencies \<Rightarrow> verify_omex_params
     \<Rightarrow> temporal_call list \<times> (py_exception + VerifyWorkflowOutput)" where
  "verify_omex deps q =
     (if \<not> dep_file_service deps then ([], Inl AssertionError)
      else if \<not> dep_omex_database deps then ([], Inl AssertionError)
      else case dep_cached_omex_file deps of
        Inl e \<Rightarrow> ([], Inl e)
      | Inr omex_file \<Rightarrow>
          (case dep_biosim_service deps of
             None \<Rightarrow> ([], Inl AssertionError)
           | Some (Inl e) \<Rightarrow> ([], Inl e)
           | Some (Inr all_simulator_versions) \<Rightarrow>
               (case resolve_simulators all_simulator_versions (vq_simulators q) [] of
                  Inl e \<Rightarrow> ([], Inl e)
                | Inr simulator_versions \<Rightarrow>
                    (let workflow_id = vq_workflow_id_prefix q @ dep_uuid4 deps;
                         compare_settings =
                           \<lparr>cs_user_description = vq_user_description q,
                            cs_include_outputs = vq_include_outputs q,
                            cs_rel_tol = vq_rel_tol q,
                            cs_abs_tol_min = vq_abs_tol_min q,
                            cs_abs_tol_scale = vq_abs_tol_scale q,
                            cs_observables = vq_observables q\<rparr>;
                         omex_verify_workflow_input =
                           \<lparr>wi_omex_file = omex_file,
                            wi_requested_simulators = simulator_versions,
                            wi_compare_settings = compare_settings,
                            wi_cache_buster = vq_cache_buster q\<rparr>
                     in start_and_report deps workflow_id compare_settings
                          (StartOmexVerifyWorkflow workflow_id omex_verify_workflow_input)))))"

definition verify_runs ::
  "dependencies \<Rightarrow> verify_runs_params
     \<Rightarrow> temporal_call list \<times> (py_exception + VerifyWorkflowOutput)" where
  "verify_runs deps q =
     (let workflow_id = rq_workflow_id_prefix q @ dep_uuid4 deps;
          compare_settings =
            \<lparr>cs_user_description = rq_user_description q,
             cs_include_outputs = rq_include_outputs q,
             cs_rel_tol = rq_rel_tol q,
             cs_abs_tol_min = rq_abs_tol_min q,
             cs_abs_tol_scale = rq_abs_tol_scale q,
             cs_observables = rq_observables q\<rparr>;
          runs_verify_workflow_input =
            \<lparr>ri_biosimulations_run_ids = rq_biosimulations_run_ids q,
             ri_compare_settings = compare_settings\<rparr>
      in start_and_report deps workflow_id compare_settings
           (StartRunsVerifyWorkflow workflow_id runs_verify_workflow_input))"

text \<open>
  \<open>GET /verify/{workflow_id}\<close>: every \<open>Exception\<close> raised inside the \<open>try\<close>, the
  \<open>AssertionError\<close> of the assertion on the client too, is caught by \<open>except Exception\<close>
  and its \<open>str\<close> ends the detail; for an \<open>AssertionError\<close> without arguments that text is
  empty. A \<open>CancelledError\<close> leaves the function as it is.
\<close>

definition get_verify_output ::
  "dependencies \<Rightarrow> string \<Rightarrow> temporal_call list \<times> (py_exception + VerifyWorkflowOutput)" where
  "get_verify_output deps workflow_id =
     (case dep_temporal_client deps of
        None \<Rightarrow>
          ([], Inl (HTTPException 404
                 (''error retrieving verification job output with id: '' @ workflow_id
                    @ '': '' @ '''')))
      | Some client \<Rightarrow>
          (case tc_query_get_output client workflow_id of
             Inr workflow_output \<Rightarrow> ([QueryGetOutput workflow_id], Inr workflow_output)
           | Inl (RaisedException class_name exc_message) \<Rightarrow>
               ([QueryGetOutput workflow_id],
                Inl (HTTPException 404
                  (''error retrieving verification job output with id: '' @ workflow_id
                     @ '': '' @ exc_message)))
           | Inl RaisedCancelledError \<Rightarrow> ([QueryGetOutput workflow_id], Inl CancelledError)))"

text \<open>
  What the framework answers for an endpoint's outcome: the status code of an
  \<open>HTTPException\<close>, 500 for any other exception, 200 for a returned value. (A cancelled
  request is answered to nobody; no property below reads the status of a
  \<open>CancelledError\<close>.)
\<close>

fun response_status :: "py_exception + 'a \<Rightarrow> nat" where
  "response_status (Inr v) = 200"
| "response_status (Inl (HTTPException status_code detail)) = status_code"
| "response_status (Inl e) = 500"

section \<open>common/biosim1\_client/biosim\_service\_rest.py\<close>

text \<open>
  Modelled from the spec: the class \<open>BiosimSimulationRun\<close> that the REST client and the
  activities import from common/biosim1\_client (its models.py is not among the source
  files; the class of biosim\_runs/models.py above has other fields). It is the record of
  the keyword arguments they construct it with:
  \<open>id, name, simulator, simulatorVersion, simulatorDigest, status\<close>, where
  \<open>simulatorDigest\<close> is optional, since the activity leaves it out. No validator of its
  fields is modelled.
\<close>

record Biosim1SimulationRun =
  b1_id :: string
  b1_name :: string
  b1_simulator :: string
  b1_simulatorVersion :: string
  b1_simulatorDigest :: "string option"
  b1_status :: BiosimSimulationRunStatus

text \<open>
  An HTTP response of the remote API: its status, its reason phrase and what decoding
  its JSON body gives. \<open>raise_for_status\<close> raises \<open>ClientResponseError\<close> for a status of
  400 or more. A request is answered by a response, or raises before there is one (no
  connection): \<open>http_get\<close> is the block
  \<open>async with session.get(url) as resp: resp.raise_for_status(); await resp.json()\<close>.
\<close>

record 'a http_response =
  resp_status :: nat
  resp_reason :: string
  resp_body :: "py_exception + 'a"

definition raise_for_status :: "'a http_response \<Rightarrow> py_exception + 'a" where
  "raise_for_status resp =
     (if 400 \<le> resp_status resp
      then Inl (ClientResponseError (resp_status resp) (resp_reason resp))
      else resp_body resp)"

definition http_get :: "py_exception + 'a http_response \<Rightarrow> py_exception + 'a" where
  "http_get outcome =
     (case outcome of
        Inl e \<Rightarrow> Inl e
      | Inr resp \<Rightarrow> raise_for_status resp)"

text \<open>
  \<open>BiosimServiceRest.get_sim_run\<close>: \<open>remote\<close> is the endpoint
  \<open>GET /runs/{simulation_run_id}\<close>.
\<close>

definition rest_get_sim_run ::
  "(string \<Rightarrow> py_exception + Biosim1SimulationRun http_response) \<Rightarrow> string
     \<Rightarrow> py_exception + Biosim1SimulationRun" where
  "rest_get_sim_run remote simulation_run_id = http_get (remote simulation_run_id)"

text \<open>
  The decorator \<open>@cached(ttl=3600, cache=SimpleMemoryCache)\<close> of aiocache around
  \<open>get_simulation_versions\<close>. The cache holds at most one entry for the method: the value
  and the time at which the cache's timer deletes it (the time of the write plus the
  ttl). A call reads the cache; on a hit it returns the value and does not run the
  body; on a miss it runs the body, and only when the body returns does it write the
  result. An exception of the body passes through the decorator. Time is a number of
  seconds read from a clock the caller supplies.
\<close>

definition catalog_ttl :: nat where
  "catalog_ttl = 3600"

type_synonym 'a memory_cache = "('a \<times> nat) option"

definition cache_get :: "nat \<Rightarrow> 'a memory_cache \<Rightarrow> 'a option" where
  "cache_get now cache =
     (case cache of
        None \<Rightarrow> None
      | Some (v, expires) \<Rightarrow> if now < expires then Some v else None)"

definition cached ::
  "nat \<Rightarrow> nat \<Rightarrow> (py_exception + 'a) \<Rightarrow> 'a memory_cache
     \<Rightarrow> (py_exception + 'a) \<times> 'a memory_cache" where
  "cached ttl now body cache =
     (case cache_get now cache of
        Some v \<Rightarrow> (Inr v, cache)
      | None \<Rightarrow>
          (case body of
             Inl e \<Rightarrow> (Inl e, None)
           | Inr v \<Rightarrow> (Inr v, Some (v, now + ttl))))"

text \<open>
  \<open>BiosimServiceRest.get_simulation_versions\<close>: \<open>upstream\<close> is what
  \<open>GET /simulators?includeTests=false\<close> would give at this call, the body of a response
  already turned into the list of versions the loop over the JSON builds.
\<close>

definition get_simulation_versions ::
  "nat \<Rightarrow> py_exception + 'v list http_response \<Rightarrow> 'v list memory_cache
     \<Rightarrow> (py_exception + 'v list) \<times> 'v list memory_cache" where
  "get_simulation_versions now upstream cache =
     cached catalog_ttl now (http_get upstream) cache"

section \<open>workflows/simulate/biosim\_activities.py\<close>

record GetSimRunInput =
  gi_biosim_run_id :: string
  gi_abort_on_not_found :: "bool option"

text \<open>Python's truth value of an \<open>Optional[bool]\<close>.\<close>

fun truthy :: "bool option \<Rightarrow> bool" where
  "truthy None = False"
| "truthy (Some b) = b"

text \<open>
  The activity \<open>get_sim_run\<close>. Only \<open>ClientResponseError\<close> is caught; inside the handler
  every path but the one that returns ends in \<open>raise e\<close>.
\<close>

definition get_sim_run ::
  "(string \<Rightarrow> py_exception + Biosim1SimulationRun http_response) \<Rightarrow> GetSimRunInput
     \<Rightarrow> py_exception + Biosim1SimulationRun" where
  "get_sim_run remote get_sim_run_input =
     (case rest_get_sim_run remote (gi_biosim_run_id get_sim_run_input) of
        Inr biosim_sim_run \<Rightarrow> Inr biosim_sim_run
      | Inl (ClientResponseError status message) \<Rightarrow>
          if status = 404 \<and> truthy (gi_abort_on_not_found get_sim_run_input)
          then Inr \<lparr>b1_id = gi_biosim_run_id get_sim_run_input,
                    b1_name = '''',
                    b1_simulator = '''',
                    b1_simulatorVersion = '''',
                    b1_simulatorDigest = None,
                    b1_status = RUN_ID_NOT_FOUND\<rparr>
          else Inl (ClientResponseError status message)
      | Inl e \<Rightarrow> Inl e)"

text \<open>
  Modelled from the spec: the caller of the activity (the workflow code is not among the
  source files). The substrate runs an activity again when an attempt raises, up to a
  bounded number of retries, and takes the value of the first attempt that returns
  (spec 4.3 and 7; the activity's own comment: "return a failed simulation run rather
  than raising an exception to avoid retrying the activity"). \<open>attempt k\<close> is what the
  \<open>k\<close>-th attempt does; the result is the number of attempts made and the last outcome.
\<close>

fun execute_activity ::
  "nat \<Rightarrow> (nat \<Rightarrow> py_exception + 'a) \<Rightarrow> nat \<Rightarrow> nat \<times> (py_exception + 'a)" where
  "execute_activity 0 attempt k = (Suc k, attempt k)"
| "execute_activity (Suc retries) attempt k =
     (case attempt k of
        Inr v \<Rightarrow> (Suc k, Inr v)
      | Inl e \<Rightarrow> execute_activity retries attempt (Suc k))"

section \<open>Components modelled from the spec\<close>

subsection \<open>Content Store\<close>

text \<open>
  Modelled from the spec: \<open>get_cached_omex_file_from_upload\<close> (biosim\_omex/omex\_storage.py
  is not among the source files), as the contract \<open>submit(bytes) -> ArchiveRecord\<close> of spec
  4.1. The store is the list of storage objects (uri and bytes) and the catalog of
  records. \<open>submit\<close> computes the content hash first; a catalog record with that hash is
  returned unchanged, with no write; otherwise the bytes are stored under a path
  derived from the hash and a record is inserted. The hash and the path are
  parameters.
\<close>

record content_store =
  st_objects :: "(string \<times> string) list"
  st_catalog :: "OmexFile list"

text \<open>An upload: the bytes, the file name and the time of the submission.\<close>

type_synonym upload = "string \<times> string \<times> string"

definition empty_store :: content_store where
  "empty_store = \<lparr>st_objects = [], st_catalog = []\<rparr>"

definition submit ::
  "(string \<Rightarrow> string) \<Rightarrow> (string \<Rightarrow> string) \<Rightarrow> upload \<Rightarrow> content_store
     \<Rightarrow> OmexFile \<times> content_store" where
  "submit hash_bytes path_of upload store =
     (case upload of (bytes, filename, now) \<Rightarrow>
        (let content_hash = hash_bytes bytes in
         case find (\<lambda>r. of_content_hash r = content_hash) (st_catalog store) of
           Some existing \<Rightarrow> (existing, store)
         | None \<Rightarrow>
             (let new_record =
                    \<lparr>of_content_hash = content_hash,
                     of_storage_uri = path_of content_hash,
                     of_filename = filename,
                     of_size = length bytes,
                     of_created_at = now\<rparr>
              in (new_record,
                  \<lparr>st_objects = st_objects store @ [(path_of content_hash, bytes)],
                   st_catalog = st_catalog store @ [new_record]\<rparr>))))"

text \<open>A sequence of submissions, one after the other.\<close>

fun submit_all ::
  "(string \<Rightarrow> string) \<Rightarrow> (string \<Rightarrow> string) \<Rightarrow> upload list
     \<Rightarrow> content_store \<Rightarrow> content_store" where
  "submit_all hash_bytes path_of [] store = store"
| "submit_all hash_bytes path_of (upload # uploads) store =
     submit_all hash_bytes path_of uploads (snd (submit hash_bytes path_of upload store))"

text \<open>
  The invariant of the store: no two catalog records share a content hash, and the
  storage objects are, in order, the bytes of the catalog records.
\<close>

definition store_inv :: "(string \<Rightarrow> string) \<Rightarrow> content_store \<Rightarrow> bool" where
  "store_inv hash_bytes store \<longleftrightarrow>
     distinct (map of_content_hash (st_catalog store))
     \<and> map (\<lambda>(uri, bytes). hash_bytes bytes) (st_objects store)
         = map of_content_hash (st_catalog store)"

subsection \<open>Cache Key Resolver and the start of a run's lifecycle\<close>










subsection \<open>Comparison Engine\<close>

text \<open>
  Modelled from the spec: the numeric agreement test of the Comparison Engine
  (biosim\_verify is not among the source files), as spec 3 writes it, over the reals.
\<close>

definition atol :: "CompareSettings \<Rightarrow> real \<Rightarrow> real \<Rightarrow> real" where
  "atol settings a b =
     max (cs_abs_tol_min settings) (max \<bar>a\<bar> \<bar>b\<bar> * cs_abs_tol_scale settings)"

definition values_agree :: "CompareSettings \<Rightarrow> real \<Rightarrow> real \<Rightarrow> bool" where
  "values_agree settings a b \<longleftrightarrow>
     \<bar>a - b\<bar> \<le> atol settings a b + cs_rel_tol settings * max \<bar>a\<bar> \<bar>b\<bar>"

text \<open>The settings an endpoint builds from its default query parameters.\<close>

definition default_compare_settings :: CompareSettings where
  "default_compare_settings =
     \<lparr>cs_user_description = ''my-omex-compare'',
      cs_include_outputs = False,
      cs_rel_tol = 1 / 10000,
      cs_abs_tol_min = 1 / 1000,
      cs_abs_tol_scale = 1 / 100000,
      cs_observables = None\<rparr>"

section \<open>Example inputs\<close>

text \<open>
  Concrete inputs for the instances below: a catalog with two entries of id \<open>copasi\<close>,
  a remote that answers 404, an archive and a request for it, upstream answers of the
  catalog source, a workflow client that starts every workflow and knows no workflow id,
  one that cannot reach the substrate, one whose calls are cancelled, and the query
  parameters of the two posting
  endpoints (the defaults of main.py, but for the simulators).
\<close>

definition copasi_old :: BiosimulatorVersion where
  "copasi_old =
     \<lparr>sv_id = ''copasi'', sv_name = ''COPASI'', sv_version = ''4.27.214'',
      sv_image_url = ''ghcr.io/biosimulators/copasi:4.27.214'',
      sv_image_digest = ''sha256:aa'',
      sv_created = ''2020-01-01'', sv_updated = ''2020-01-01''\<rparr>"

definition copasi_new :: BiosimulatorVersion where
  "copasi_new =
     \<lparr>sv_id = ''copasi'', sv_name = ''COPASI'', sv_version = ''4.45.296'',
      sv_image_url = ''ghcr.io/biosimulators/copasi:4.45.296'',
      sv_image_digest = ''sha256:bb'',
      sv_created = ''2024-01-01'', sv_updated = ''2024-01-01''\<rparr>"

definition tellurium :: BiosimulatorVersion where
  "tellurium =
     \<lparr>sv_id = ''tellurium'', sv_name = ''tellurium'', sv_version = ''2.2.10'',
      sv_image_url = ''ghcr.io/biosimulators/tellurium:2.2.10'',
      sv_image_digest = ''sha256:cc'',
      sv_created = ''2023-01-01'', sv_updated = ''2023-01-01''\<rparr>"

definition example_catalog :: "BiosimulatorVersion list" where
  "example_catalog = [copasi_old, tellurium, copasi_new]"

definition remote_not_found ::
  "string \<Rightarrow> py_exception + Biosim1SimulationRun http_response" where
  "remote_not_found simulation_run_id =
     Inr \<lparr>resp_status = 404, resp_reason = ''Not Found'',
          resp_body = Inl (ValueError ''no JSON body'')\<rparr>"

definition example_omex :: OmexFile where
  "example_omex =
     \<lparr>of_content_hash = ''0cc175b9c0f1b6a831c399e269772661'',
      of_storage_uri = ''verify/omex/0cc175b9c0f1b6a831c399e269772661'',
      of_filename = ''model.omex'', of_size = 1, of_created_at = ''2025-01-10''\<rparr>"






definition upstream_ok :: "py_exception + BiosimulatorVersion list http_response" where
  "upstream_ok =
     Inr \<lparr>resp_status = 200, resp_reason = ''OK'', resp_body = Inr example_catalog\<rparr>"

definition upstream_unavailable :: "py_exception + BiosimulatorVersion list http_response" where
  "upstream_unavailable =
     Inr \<lparr>resp_status = 503, resp_reason = ''Service Unavailable'',
          resp_body = Inl (ValueError ''no JSON body'')\<rparr>"

definition example_client :: temporal_client where
  "example_client =
     \<lparr>tc_start_workflow = (\<lambda>workflow_id. Inr \<lparr>wh_id = workflow_id, wh_run_id = Some ''run-1''\<rparr>),
      tc_query_get_output =
        (\<lambda>workflow_id. Inl (RaisedException ''RPCError'' ''workflow not found''))\<rparr>"

definition unreachable_client :: temporal_client where
  "unreachable_client =
     \<lparr>tc_start_workflow =
        (\<lambda>workflow_id. Inl (CollaboratorError InfrastructureFailure ''connection refused'')),
      tc_query_get_output =
        (\<lambda>workflow_id. Inl (RaisedException ''RPCError'' ''connection refused''))\<rparr>"

definition cancelled_client :: temporal_client where
  "cancelled_client =
     \<lparr>tc_start_workflow = (\<lambda>workflow_id. Inl CancelledError),
      tc_query_get_output = (\<lambda>workflow_id. Inl RaisedCancelledError)\<rparr>"

definition example_deps :: dependencies where
  "example_deps =
     \<lparr>dep_file_service = True,
      dep_omex_database = True,
      dep_cached_omex_file = Inr example_omex,
      dep_biosim_service = Some (Inr example_catalog),
      dep_temporal_client = Some example_client,
      dep_uuid4 = ''123e4567-e89b-12d3-a456-426614174000'',
      dep_now = ''2025-01-10 19:51:11.424000+00:00''\<rparr>"

definition example_omex_params :: verify_omex_params where
  "example_omex_params =
     \<lparr>vq_workflow_id_prefix = ''omex-verification-'',
      vq_simulators = [''copasi'', ''tellurium:2.2.10''],
      vq_include_outputs = False,
      vq_user_description = ''my-omex-compare'',
      vq_rel_tol = 1 / 10000,
      vq_abs_tol_min = 1 / 1000,
      vq_abs_tol_scale = 1 / 100000,
      vq_cache_buster = ''0'',
      vq_observables = None\<rparr>"

definition example_runs_params :: verify_runs_params where
  "example_runs_params =
     \<lparr>rq_workflow_id_prefix = ''runs-verification-'',
      rq_biosimulations_run_ids = [''67817a2e1f52f47f628af971'', ''67817a2eba5a3f02b9f2938d''],
      rq_include_outputs = False,
      rq_user_description = ''my-verify-job'',
      rq_rel_tol = 1 / 10000,
      rq_abs_tol_min = 1 / 1000,
      rq_abs_tol_scale = 1 / 100000,
      rq_observables = None\<rparr>"

lemmas endpoint_example_defs =
  example_client_def unreachable_client_def cancelled_client_def example_deps_def
  example_omex_params_def example_runs_params_def example_omex_def

lemmas example_defs = example_catalog_def copasi_old_def copasi_new_def tellurium_def

section \<open>Properties of the run model\<close>

lemma str_find_ge_m1: "- 1 \<le> str_find v c"
  by (induction v) (auto simp: Let_def)

lemma str_find_nonneg_iff: "0 \<le> str_find v c \<longleftrightarrow> c \<in> set v"
proof (induction v)
  case Nil
  show ?case by simp
next
  case (Cons x xs)
  have "- 1 \<le> str_find xs c" by (rule str_find_ge_m1)
  with Cons show ?case by (auto simp: Let_def)
qed

text \<open>
  Claim C9. Constructing a \<open>BiosimSimulationRun\<close> whose id contains a dash raises a
  validation error, and the validator returns every id without a dash unchanged (the
  object is then built with that id). A run id written as a UUID has dashes, so it is
  rejected.
\<close>

theorem validate_id_dashes:
  "(CHR ''-'' \<in> set v \<longrightarrow>
      validate_id v = Inl (ValueError ''id must not contain any dashes, looks like a uuid'')
      \<and> new_BiosimSimulationRun v n sv st err
          = Inl (ValidationError ''id must not contain any dashes, looks like a uuid''))
   \<and> (CHR ''-'' \<notin> set v \<longrightarrow>
      validate_id v = Inr v
      \<and> new_BiosimSimulationRun v n sv st err
          = Inr \<lparr>run_id = v, run_name = n, run_simulator_version = sv, run_status = st,
                 run_error_message = err\<rparr>)"
  by (simp add: validate_id_def new_BiosimSimulationRun_def str_find_nonneg_iff)

theorem validate_id_dashes_witness:
  "CHR ''-'' \<in> set ''123e4567-e89b-12d3-a456-426614174000''
   \<and> new_BiosimSimulationRun ''123e4567-e89b-12d3-a456-426614174000'' ''run'' copasi_new
         CREATED None
       = Inl (ValidationError ''id must not contain any dashes, looks like a uuid'')
   \<and> CHR ''-'' \<notin> set ''67817a2e1f52f47f628af971''
   \<and> validate_id ''67817a2e1f52f47f628af971'' = Inr ''67817a2e1f52f47f628af971''"
  using validate_id_dashes
          [of "''123e4567-e89b-12d3-a456-426614174000''" "''run''" copasi_new CREATED None]
        validate_id_dashes [of "''67817a2e1f52f47f628af971''" "''run''" copasi_new CREATED None]
  by simp

section \<open>Properties of simulator resolution\<close>

lemma str_split_no_sep: "c \<notin> set w \<Longrightarrow> str_split c w = [w]"
  by (induction w) auto

lemma str_split_two:
  "c \<notin> set n \<Longrightarrow> c \<notin> set v \<Longrightarrow> str_split c (n @ c # v) = [n, v]"
  by (induction n) (auto simp: str_split_no_sep)

lemma find_name_filter:
  "find_name cat s acc =
     (case filter (\<lambda>sv. sv_id sv = s) cat of
        [] \<Rightarrow> acc
      | m # ms \<Rightarrow> Some (last (m # ms)))"
  by (induction cat arbitrary: acc) (auto split: list.splits)

lemma find_name_version_filter:
  "find_name_version cat n v =
     (case filter (\<lambda>sv. sv_id sv = n \<and> sv_version sv = v) cat of
        [] \<Rightarrow> None
      | m # ms \<Rightarrow> Some m)"
  by (induction cat) auto

lemma resolve_simulator_name:
  assumes "CHR '':'' \<notin> set simulator"
  shows "resolve_simulator cat simulator =
     (case find_name cat simulator None of
        Some sv \<Rightarrow> Inr sv
      | None \<Rightarrow> Inl (HTTPException 400 (''Simulator '' @ simulator @ '' not found.'')))"
  using assms by (simp add: resolve_simulator_def)

lemma resolve_simulator_name_version:
  assumes "CHR '':'' \<notin> set name" and "CHR '':'' \<notin> set version"
  shows "resolve_simulator cat (name @ CHR '':'' # version) =
     (case find_name_version cat name version of
        Some sv \<Rightarrow> Inr sv
      | None \<Rightarrow> Inl (HTTPException 400
                  (''Simulator '' @ (name @ CHR '':'' # version) @ '' not found.'')))"
proof -
  have "str_split CHR '':'' (name @ CHR '':'' # version) = [name, version]"
    using assms by (rule str_split_two)
  then show ?thesis
    by (simp add: resolve_simulator_def)
qed

text \<open>
  Claim C3. For every catalog and every request that gives a name and no version (a
  string without a colon), resolution returns the last catalog entry, in list order,
  whose id (the simulator's name in requests) is that name, and fails with the not-found
  exception (status 400) when there is none. For every request \<open>name:version\<close> (neither
  part holding a colon), resolution returns an entry matching both name and version
  exactly (the first such entry), and fails with the not-found exception when there is
  none.
\<close>

theorem resolve_simulator_policy:
  "(CHR '':'' \<notin> set simulator \<longrightarrow>
      resolve_simulator cat simulator =
        (case filter (\<lambda>sv. sv_id sv = simulator) cat of
           [] \<Rightarrow> Inl (HTTPException 400 (''Simulator '' @ simulator @ '' not found.''))
         | m # ms \<Rightarrow> Inr (last (m # ms))))
   \<and> (CHR '':'' \<notin> set name \<and> CHR '':'' \<notin> set version \<longrightarrow>
      resolve_simulator cat (name @ '':'' @ version) =
        (case filter (\<lambda>sv. sv_id sv = name \<and> sv_version sv = version) cat of
           [] \<Rightarrow> Inl (HTTPException 400
                   (''Simulator '' @ (name @ '':'' @ version) @ '' not found.''))
         | m # ms \<Rightarrow> Inr m))"
proof (intro conjI impI)
  assume "CHR '':'' \<notin> set simulator"
  then show "resolve_simulator cat simulator =
        (case filter (\<lambda>sv. sv_id sv = simulator) cat of
           [] \<Rightarrow> Inl (HTTPException 400 (''Simulator '' @ simulator @ '' not found.''))
         | m # ms \<Rightarrow> Inr (last (m # ms)))"
    by (cases "filter (\<lambda>sv. sv_id sv = simulator) cat")
       (simp_all add: resolve_simulator_name find_name_filter)
next
  assume "CHR '':'' \<notin> set name \<and> CHR '':'' \<notin> set version"
  then have "resolve_simulator cat (name @ CHR '':'' # version) =
     (case find_name_version cat name version of
        Some sv \<Rightarrow> Inr sv
      | None \<Rightarrow> Inl (HTTPException 400
                  (''Simulator '' @ (name @ CHR '':'' # version) @ '' not found.'')))"
    by (simp add: resolve_simulator_name_version)
  then show "resolve_simulator cat (name @ '':'' @ version) =
        (case filter (\<lambda>sv. sv_id sv = name \<and> sv_version sv = version) cat of
           [] \<Rightarrow> Inl (HTTPException 400
                   (''Simulator '' @ (name @ '':'' @ version) @ '' not found.''))
         | m # ms \<Rightarrow> Inr m)"
    by (cases "filter (\<lambda>sv. sv_id sv = name \<and> sv_version sv = version) cat")
       (simp_all add: find_name_version_filter)
qed

theorem resolve_simulator_policy_witness:
  "CHR '':'' \<notin> set ''copasi'' \<and> CHR '':'' \<notin> set ''4.27.214'' \<and> CHR '':'' \<notin> set ''9.9''
   \<and> resolve_simulator example_catalog ''copasi'' = Inr copasi_new
   \<and> resolve_simulator example_catalog ''copasi'' \<noteq> Inr copasi_old
   \<and> resolve_simulator example_catalog ''copasi:4.27.214'' = Inr copasi_old
   \<and> resolve_simulator example_catalog ''copasi:9.9''
        = Inl (HTTPException 400 ''Simulator copasi:9.9 not found.'')
   \<and> resolve_simulator example_catalog ''vcell''
        = Inl (HTTPException 400 ''Simulator vcell not found.'')"
  using resolve_simulator_policy [of "''copasi''" example_catalog "''copasi''" "''4.27.214''"]
        resolve_simulator_policy [of "''vcell''" example_catalog "''copasi''" "''9.9''"]
  by (simp add: example_defs)

section \<open>Properties of the activity get\_sim\_run\<close>

lemma execute_activity_returns:
  "attempt k = Inr v \<Longrightarrow> execute_activity retries attempt k = (Suc k, Inr v)"
  by (cases retries) simp_all

text \<open>
  Claim C4. When the remote status endpoint answers 404 for a run id, \<open>get_sim_run\<close> with
  \<open>abort_on_not_found\<close> true returns, as a value and not as an exception, a run whose id
  is the requested id and whose status is \<open>RUN_ID_NOT_FOUND\<close>; executed under a retry
  budget, the first attempt is the only one. With \<open>abort_on_not_found\<close> false (or left
  out), the \<open>ClientResponseError\<close> with status 404 is raised again.
\<close>

theorem get_sim_run_not_found:
  "remotes 0 rid = Inr resp \<and> resp_status resp = 404 \<longrightarrow>
     get_sim_run (remotes 0) \<lparr>gi_biosim_run_id = rid, gi_abort_on_not_found = Some True\<rparr>
       = Inr \<lparr>b1_id = rid, b1_name = '''', b1_simulator = '''', b1_simulatorVersion = '''',
              b1_simulatorDigest = None, b1_status = RUN_ID_NOT_FOUND\<rparr>
     \<and> execute_activity retries
          (\<lambda>k. get_sim_run (remotes k)
                 \<lparr>gi_biosim_run_id = rid, gi_abort_on_not_found = Some True\<rparr>) 0
         = (1, Inr \<lparr>b1_id = rid, b1_name = '''', b1_simulator = '''', b1_simulatorVersion = '''',
                    b1_simulatorDigest = None, b1_status = RUN_ID_NOT_FOUND\<rparr>)
     \<and> (\<not> truthy abort \<longrightarrow>
          get_sim_run (remotes 0) \<lparr>gi_biosim_run_id = rid, gi_abort_on_not_found = abort\<rparr>
            = Inl (ClientResponseError 404 (resp_reason resp)))"
proof (intro impI conjI)
  assume nf: "remotes 0 rid = Inr resp \<and> resp_status resp = 404"
  show ret: "get_sim_run (remotes 0)
         \<lparr>gi_biosim_run_id = rid, gi_abort_on_not_found = Some True\<rparr>
       = Inr \<lparr>b1_id = rid, b1_name = '''', b1_simulator = '''', b1_simulatorVersion = '''',
              b1_simulatorDigest = None, b1_status = RUN_ID_NOT_FOUND\<rparr>"
    using nf
    by (simp add: get_sim_run_def rest_get_sim_run_def http_get_def raise_for_status_def)
  from ret show "execute_activity retries
          (\<lambda>k. get_sim_run (remotes k)
                 \<lparr>gi_biosim_run_id = rid, gi_abort_on_not_found = Some True\<rparr>) 0
         = (1, Inr \<lparr>b1_id = rid, b1_name = '''', b1_simulator = '''', b1_simulatorVersion = '''',
                    b1_simulatorDigest = None, b1_status = RUN_ID_NOT_FOUND\<rparr>)"
    by (simp add: execute_activity_returns)
  assume "\<not> truthy abort"
  with nf show "get_sim_run (remotes 0)
         \<lparr>gi_biosim_run_id = rid, gi_abort_on_not_found = abort\<rparr>
       = Inl (ClientResponseError 404 (resp_reason resp))"
    by (simp add: get_sim_run_def rest_get_sim_run_def http_get_def raise_for_status_def)
qed

theorem get_sim_run_not_found_witness:
  "remote_not_found ''67817a2e1f52f47f628af971''
     = Inr \<lparr>resp_status = 404, resp_reason = ''Not Found'',
            resp_body = Inl (ValueError ''no JSON body'')\<rparr>
   \<and> get_sim_run remote_not_found
        \<lparr>gi_biosim_run_id = ''67817a2e1f52f47f628af971'', gi_abort_on_not_found = Some True\<rparr>
       = Inr \<lparr>b1_id = ''67817a2e1f52f47f628af971'', b1_name = '''', b1_simulator = '''',
              b1_simulatorVersion = '''', b1_simulatorDigest = None,
              b1_status = RUN_ID_NOT_FOUND\<rparr>
   \<and> execute_activity 5
        (\<lambda>k. get_sim_run remote_not_found
           \<lparr>gi_biosim_run_id = ''67817a2e1f52f47f628af971'', gi_abort_on_not_found = Some True\<rparr>) 0
       = (1, Inr \<lparr>b1_id = ''67817a2e1f52f47f628af971'', b1_name = '''', b1_simulator = '''',
              b1_simulatorVersion = '''', b1_simulatorDigest = None,
              b1_status = RUN_ID_NOT_FOUND\<rparr>)
   \<and> \<not> truthy (Some False)
   \<and> get_sim_run remote_not_found
        \<lparr>gi_biosim_run_id = ''67817a2e1f52f47f628af971'', gi_abort_on_not_found = Some False\<rparr>
       = Inl (ClientResponseError 404 ''Not Found'')"
  using get_sim_run_not_found
          [of "\<lambda>k. remote_not_found" "''67817a2e1f52f47f628af971''"
              "\<lparr>resp_status = 404, resp_reason = ''Not Found'',
                resp_body = Inl (ValueError ''no JSON body'')\<rparr>" 5 "Some False"]
  by (simp add: remote_not_found_def execute_activity_returns)

section \<open>Properties of the tolerance formula\<close>

text \<open>
  Claim C1. For all settings and all values \<open>a\<close> and \<open>b\<close>, the values agree if and only if
  \<open>|a - b| \<le> atol + rel_tol * max(|a|, |b|)\<close> with
  \<open>atol = max(abs_tol_min, max(|a|, |b|) * abs_tol_scale)\<close>; with \<open>rel_tol = 0.0001\<close>,
  \<open>abs_tol_min = 0.001\<close> and \<open>abs_tol_scale = 0.00001\<close>, the values 100.0 and 100.002 agree
  and the values 100.0 and 100.5 do not.
\<close>

theorem values_agree_formula:
  "(values_agree settings a b \<longleftrightarrow>
      \<bar>a - b\<bar> \<le> max (cs_abs_tol_min settings) (max \<bar>a\<bar> \<bar>b\<bar> * cs_abs_tol_scale settings)
                 + cs_rel_tol settings * max \<bar>a\<bar> \<bar>b\<bar>)
   \<and> cs_rel_tol default_compare_settings = 1 / 10000
   \<and> cs_abs_tol_min default_compare_settings = 1 / 1000
   \<and> cs_abs_tol_scale default_compare_settings = 1 / 100000
   \<and> values_agree default_compare_settings 100 (100002 / 1000)
   \<and> \<not> values_agree default_compare_settings 100 (1005 / 10)"
  by (simp add: values_agree_def atol_def default_compare_settings_def)

section \<open>Properties of the Content Store\<close>

lemma find_append_unmatched:
  "find P xs = None \<Longrightarrow> find P (xs @ ys) = find P ys"
  by (induction xs) (auto split: if_splits)

lemma submit_existing:
  "find (\<lambda>r. of_content_hash r = hash_bytes bytes) (st_catalog store) = Some r
   \<Longrightarrow> submit hash_bytes path_of (bytes, filename, now) store = (r, store)"
  by (simp add: submit_def)

lemma submit_finds_own_record:
  "find (\<lambda>r. of_content_hash r = hash_bytes bytes)
     (st_catalog (snd (submit hash_bytes path_of (bytes, filename, now) store)))
   = Some (fst (submit hash_bytes path_of (bytes, filename, now) store))"
proof (cases "find (\<lambda>r. of_content_hash r = hash_bytes bytes) (st_catalog store)")
  case None
  then have "find (\<lambda>r. of_content_hash r = hash_bytes bytes) (st_catalog store @ [x]) =
      find (\<lambda>r. of_content_hash r = hash_bytes bytes) [x]" for x
    by (rule find_append_unmatched)
  with None show ?thesis
    by (simp add: submit_def Let_def)
next
  case (Some r)
  then show ?thesis by (simp add: submit_def)
qed

lemma submit_content_hash:
  "of_content_hash (fst (submit hash_bytes path_of (bytes, filename, now) store))
     = hash_bytes bytes"
proof (cases "find (\<lambda>r. of_content_hash r = hash_bytes bytes) (st_catalog store)")
  case None
  then show ?thesis by (simp add: submit_def Let_def)
next
  case (Some r)
  then have "of_content_hash r = hash_bytes bytes"
    by (auto simp: find_Some_iff)
  with Some show ?thesis by (simp add: submit_def)
qed

lemma submit_twice:
  "submit hash_bytes path_of (bytes, filename2, t2)
     (snd (submit hash_bytes path_of (bytes, filename1, t1) store))
   = submit hash_bytes path_of (bytes, filename1, t1) store"
  using submit_finds_own_record [of hash_bytes bytes path_of filename1 t1 store]
  by (simp add: submit_existing)

lemma store_inv_submit:
  assumes "store_inv hash_bytes store"
  shows "store_inv hash_bytes (snd (submit hash_bytes path_of upload store))"
proof -
  obtain bytes filename now where u: "upload = (bytes, filename, now)"
    by (cases upload) auto
  show ?thesis
  proof (cases "find (\<lambda>r. of_content_hash r = hash_bytes bytes) (st_catalog store)")
    case None
    then have "hash_bytes bytes \<notin> of_content_hash ` set (st_catalog store)"
      by (auto simp: find_None_iff)
    with assms None show ?thesis
      by (simp add: u submit_def Let_def store_inv_def)
  next
    case (Some r)
    with assms show ?thesis by (simp add: u submit_def)
  qed
qed

lemma store_inv_submit_all:
  "store_inv hash_bytes store \<Longrightarrow> store_inv hash_bytes (submit_all hash_bytes path_of uploads store)"
  by (induction uploads arbitrary: store) (simp_all add: store_inv_submit)

lemma store_inv_empty: "store_inv hash_bytes empty_store"
  by (simp add: store_inv_def empty_store_def)

text \<open>
  Claim C5. Archive submission is idempotent: for every byte sequence, submitting it
  twice (under any file names, at any times, into any store) returns records with the
  content hash of the bytes, the second submission returns the record of the first and
  leaves the store as it was; and in every store reached from the empty one by
  submissions, no two catalog records and no two storage objects have the same content
  hash, the objects being as many as the records.
\<close>

theorem submit_idempotent:
  "(let (r1, s1) = submit hash_bytes path_of (bytes, filename1, t1) store;
        (r2, s2) = submit hash_bytes path_of (bytes, filename2, t2) s1
    in of_content_hash r1 = hash_bytes bytes \<and> of_content_hash r2 = of_content_hash r1
       \<and> r2 = r1 \<and> s2 = s1)
   \<and> (let s = submit_all hash_bytes path_of uploads empty_store
      in distinct (map of_content_hash (st_catalog s))
         \<and> distinct (map (\<lambda>(uri, bytes). hash_bytes bytes) (st_objects s))
         \<and> length (st_objects s) = length (st_catalog s))"
proof (intro conjI)
  obtain r1 s1 where one: "submit hash_bytes path_of (bytes, filename1, t1) store = (r1, s1)"
    by (cases "submit hash_bytes path_of (bytes, filename1, t1) store") auto
  have two: "submit hash_bytes path_of (bytes, filename2, t2) s1 = (r1, s1)"
    using submit_twice [of hash_bytes path_of bytes filename2 t2 filename1 t1 store] one
    by simp
  have "of_content_hash r1 = hash_bytes bytes"
    using submit_content_hash [of hash_bytes path_of bytes filename1 t1 store] one by simp
  with one two show "let (r1, s1) = submit hash_bytes path_of (bytes, filename1, t1) store;
        (r2, s2) = submit hash_bytes path_of (bytes, filename2, t2) s1
    in of_content_hash r1 = hash_bytes bytes \<and> of_content_hash r2 = of_content_hash r1
       \<and> r2 = r1 \<and> s2 = s1"
    by simp
next
  have inv: "store_inv hash_bytes (submit_all hash_bytes path_of uploads empty_store)"
    by (simp add: store_inv_submit_all store_inv_empty)
  then have "length (st_objects (submit_all hash_bytes path_of uploads empty_store))
           = length (st_catalog (submit_all hash_bytes path_of uploads empty_store))"
    unfolding store_inv_def by (blast dest: map_eq_imp_length_eq)
  with inv show "let s = submit_all hash_bytes path_of uploads empty_store
      in distinct (map of_content_hash (st_catalog s))
         \<and> distinct (map (\<lambda>(uri, bytes). hash_bytes bytes) (st_objects s))
         \<and> length (st_objects s) = length (st_catalog s)"
    by (simp add: store_inv_def Let_def)
qed

section \<open>Properties of the Cache Key Resolver\<close>











section \<open>Properties of the catalog cache\<close>

text \<open>
  Claim C7, as stated, fails. The catalog is written to the cache at time 0 and expires
  at time 3600; at time 3601 the upstream answers 503, and \<open>get_simulation_versions\<close>
  raises the \<open>ClientResponseError\<close> instead of returning the catalog it had.
\<close>

theorem catalog_no_stale_fallback:
  "get_simulation_versions 0 upstream_ok None
     = (Inr example_catalog, Some (example_catalog, 3600))
   \<and> get_simulation_versions 3601 upstream_unavailable (Some (example_catalog, 3600))
     = (Inl (ClientResponseError 503 ''Service Unavailable''), None)
   \<and> fst (get_simulation_versions 3601 upstream_unavailable (Some (example_catalog, 3600)))
     \<noteq> Inr example_catalog"
  by (simp add: get_simulation_versions_def cached_def cache_get_def http_get_def
        raise_for_status_def catalog_ttl_def upstream_ok_def upstream_unavailable_def)

text \<open>
  Claim C7, amended. The catalog is cached with a ttl of 3600 seconds. On a miss, a
  successful upstream answer is returned and cached until 3600 seconds later. While the
  entry lives, it is returned whatever the upstream would answer. Once the entry has
  expired, a failing upstream answer, or a request that fails before any answer, is
  raised to the caller and nothing stays cached: there is no fallback to the expired
  catalog.
\<close>

theorem catalog_cache_ttl:
  "catalog_ttl = 3600
   \<and> (cache_get now cache = None \<and> upstream = Inr resp \<and> resp_status resp < 400
        \<and> resp_body resp = Inr catalog
      \<longrightarrow> get_simulation_versions now upstream cache
            = (Inr catalog, Some (catalog, now + 3600)))
   \<and> (now < written + 3600
      \<longrightarrow> get_simulation_versions now upstream (Some (catalog, written + 3600))
            = (Inr catalog, Some (catalog, written + 3600)))
   \<and> (written + 3600 < now \<and> upstream = Inr resp \<and> 400 \<le> resp_status resp
      \<longrightarrow> get_simulation_versions now upstream (Some (catalog, written + 3600))
            = (Inl (ClientResponseError (resp_status resp) (resp_reason resp)), None))
   \<and> (written + 3600 < now \<and> upstream = Inl e
      \<longrightarrow> get_simulation_versions now upstream (Some (catalog, written + 3600))
            = (Inl e, None))"
  by (simp add: get_simulation_versions_def cached_def cache_get_def http_get_def
        raise_for_status_def catalog_ttl_def)

theorem catalog_cache_ttl_witness:
  "cache_get 0 None = (None :: BiosimulatorVersion list option)
   \<and> get_simulation_versions 0 upstream_ok None
       = (Inr example_catalog, Some (example_catalog, 3600))
   \<and> (3599 :: nat) < 0 + 3600
   \<and> get_simulation_versions 3599 upstream_unavailable (Some (example_catalog, 0 + 3600))
       = (Inr example_catalog, Some (example_catalog, 0 + 3600))
   \<and> (0 :: nat) + 3600 < 3601
   \<and> get_simulation_versions 3601 upstream_unavailable (Some (example_catalog, 0 + 3600))
       = (Inl (ClientResponseError 503 ''Service Unavailable''), None)
   \<and> get_simulation_versions 3601
        (Inl (CollaboratorError InfrastructureFailure ''connection refused''))
        (Some (example_catalog, 0 + 3600))
       = (Inl (CollaboratorError InfrastructureFailure ''connection refused''), None)"
  using catalog_cache_ttl
          [of 0 None upstream_ok
              "\<lparr>resp_status = 200, resp_reason = ''OK'', resp_body = Inr example_catalog\<rparr>"
              example_catalog 0 _, unfolded catalog_ttl_def]
        catalog_cache_ttl
          [of 3599 None upstream_unavailable _ example_catalog 0 _, unfolded catalog_ttl_def]
        catalog_cache_ttl
          [of 3601 None upstream_unavailable
              "\<lparr>resp_status = 503, resp_reason = ''Service Unavailable'',
                resp_body = Inl (ValueError ''no JSON body'')\<rparr>"
              example_catalog 0 _, unfolded catalog_ttl_def]
        catalog_cache_ttl
          [of 3601 None "Inl (CollaboratorError InfrastructureFailure ''connection refused'')"
              _ example_catalog 0 "CollaboratorError InfrastructureFailure ''connection refused''",
           unfolded catalog_ttl_def]
  by (simp add: upstream_ok_def upstream_unavailable_def cache_get_def)

section \<open>Properties of the endpoints\<close>

lemma start_and_report_started:
  assumes "dep_temporal_client deps = Some client"
    and "tc_start_workflow client workflow_id = Inr h"
    and "wh_id h = workflow_id"
  shows "start_and_report deps workflow_id compare_settings call =
     ([call],
      Inr \<lparr>vo_compare_settings = compare_settings, vo_workflow_status = PENDING,
           vo_timestamp = dep_now deps, vo_workflow_id = workflow_id,
           vo_workflow_run_id = wh_run_id h\<rparr>)"
  using assms by (simp add: start_and_report_def)

text \<open>
  Claim C8. For every request that passes validation, with the collaborators answering
  (the archive is stored, the catalog is read, every requested simulator resolves, the
  substrate starts the workflow under the id it was given), \<open>verify_runs\<close> and
  \<open>verify_omex\<close> return a \<open>VerifyWorkflowOutput\<close> whose workflow id is the caller's prefix
  followed by the UUID drawn for the request and whose status is \<open>PENDING\<close>. The only call
  to the workflow substrate is the one that starts the workflow: the endpoint returns
  after dispatch and never asks for a result.
\<close>

theorem verify_endpoints_return_pending:
  "dep_temporal_client deps = Some client
   \<and> tc_start_workflow client (prefix @ dep_uuid4 deps) = Inr h
   \<and> wh_id h = prefix @ dep_uuid4 deps
   \<longrightarrow>
     (rq_workflow_id_prefix rq = prefix
      \<longrightarrow> (\<exists>inp out.
            verify_runs deps rq = ([StartRunsVerifyWorkflow (prefix @ dep_uuid4 deps) inp], Inr out)
            \<and> vo_workflow_id out = prefix @ dep_uuid4 deps
            \<and> vo_workflow_status out = PENDING
            \<and> vo_workflow_run_id out = wh_run_id h))
     \<and> (vq_workflow_id_prefix vq = prefix
        \<and> dep_file_service deps \<and> dep_omex_database deps
        \<and> dep_cached_omex_file deps = Inr omex_file
        \<and> dep_biosim_service deps = Some (Inr all_simulator_versions)
        \<and> resolve_simulators all_simulator_versions (vq_simulators vq) [] = Inr simulator_versions
      \<longrightarrow> (\<exists>inp out.
            verify_omex deps vq = ([StartOmexVerifyWorkflow (prefix @ dep_uuid4 deps) inp], Inr out)
            \<and> wi_requested_simulators inp = simulator_versions
            \<and> vo_workflow_id out = prefix @ dep_uuid4 deps
            \<and> vo_workflow_status out = PENDING
            \<and> vo_workflow_run_id out = wh_run_id h))"
proof (intro impI conjI)
  assume a: "dep_temporal_client deps = Some client
   \<and> tc_start_workflow client (prefix @ dep_uuid4 deps) = Inr h
   \<and> wh_id h = prefix @ dep_uuid4 deps"
  {
    assume "rq_workflow_id_prefix rq = prefix"
    with a show "\<exists>inp out.
            verify_runs deps rq = ([StartRunsVerifyWorkflow (prefix @ dep_uuid4 deps) inp], Inr out)
            \<and> vo_workflow_id out = prefix @ dep_uuid4 deps
            \<and> vo_workflow_status out = PENDING
            \<and> vo_workflow_run_id out = wh_run_id h"
      by (simp add: verify_runs_def Let_def start_and_report_started)
  }
  {
    assume "vq_workflow_id_prefix vq = prefix
        \<and> dep_file_service deps \<and> dep_omex_database deps
        \<and> dep_cached_omex_file deps = Inr omex_file
        \<and> dep_biosim_service deps = Some (Inr all_simulator_versions)
        \<and> resolve_simulators all_simulator_versions (vq_simulators vq) [] = Inr simulator_versions"
    with a show "\<exists>inp out.
            verify_omex deps vq = ([StartOmexVerifyWorkflow (prefix @ dep_uuid4 deps) inp], Inr out)
            \<and> wi_requested_simulators inp = simulator_versions
            \<and> vo_workflow_id out = prefix @ dep_uuid4 deps
            \<and> vo_workflow_status out = PENDING
            \<and> vo_workflow_run_id out = wh_run_id h"
      by (simp add: verify_omex_def Let_def start_and_report_started)
  }
qed


lemma example_resolution:
  "resolve_simulators example_catalog (vq_simulators example_omex_params) []
     = Inr [copasi_new, tellurium]"
  by (simp add: example_omex_params_def resolve_simulator_def example_defs)

theorem verify_endpoints_return_pending_witness:
  "dep_temporal_client example_deps = Some example_client
   \<and> tc_start_workflow example_client
        (''runs-verification-'' @ ''123e4567-e89b-12d3-a456-426614174000'')
       = Inr \<lparr>wh_id = ''runs-verification-123e4567-e89b-12d3-a456-426614174000'',
              wh_run_id = Some ''run-1''\<rparr>
   \<and> (\<exists>inp out.
        verify_runs example_deps example_runs_params
          = ([StartRunsVerifyWorkflow
                ''runs-verification-123e4567-e89b-12d3-a456-426614174000'' inp], Inr out)
        \<and> vo_workflow_id out = ''runs-verification-123e4567-e89b-12d3-a456-426614174000''
        \<and> vo_workflow_status out = PENDING)
   \<and> resolve_simulators example_catalog (vq_simulators example_omex_params) []
       = Inr [copasi_new, tellurium]
   \<and> (\<exists>inp out.
        verify_omex example_deps example_omex_params
          = ([StartOmexVerifyWorkflow
                ''omex-verification-123e4567-e89b-12d3-a456-426614174000'' inp], Inr out)
        \<and> wi_requested_simulators inp = [copasi_new, tellurium]
        \<and> vo_workflow_id out = ''omex-verification-123e4567-e89b-12d3-a456-426614174000''
        \<and> vo_workflow_status out = PENDING)"
proof -
  have runs: "dep_temporal_client example_deps = Some example_client
     \<and> tc_start_workflow example_client (''runs-verification-'' @ dep_uuid4 example_deps)
         = Inr \<lparr>wh_id = ''runs-verification-123e4567-e89b-12d3-a456-426614174000'',
                wh_run_id = Some ''run-1''\<rparr>
     \<and> wh_id \<lparr>wh_id = ''runs-verification-123e4567-e89b-12d3-a456-426614174000'',
                wh_run_id = Some ''run-1''\<rparr>
         = ''runs-verification-'' @ dep_uuid4 example_deps"
    by (simp add: example_deps_def example_client_def)
  have omex: "dep_temporal_client example_deps = Some example_client
     \<and> tc_start_workflow example_client (''omex-verification-'' @ dep_uuid4 example_deps)
         = Inr \<lparr>wh_id = ''omex-verification-123e4567-e89b-12d3-a456-426614174000'',
                wh_run_id = Some ''run-1''\<rparr>
     \<and> wh_id \<lparr>wh_id = ''omex-verification-123e4567-e89b-12d3-a456-426614174000'',
                wh_run_id = Some ''run-1''\<rparr>
         = ''omex-verification-'' @ dep_uuid4 example_deps"
    by (simp add: example_deps_def example_client_def)
  have rq: "rq_workflow_id_prefix example_runs_params = ''runs-verification-''"
    by (simp add: example_runs_params_def)
  have vq: "vq_workflow_id_prefix example_omex_params = ''omex-verification-''
        \<and> dep_file_service example_deps \<and> dep_omex_database example_deps
        \<and> dep_cached_omex_file example_deps = Inr example_omex
        \<and> dep_biosim_service example_deps = Some (Inr example_catalog)
        \<and> resolve_simulators example_catalog (vq_simulators example_omex_params) []
            = Inr [copasi_new, tellurium]"
    by (simp add: example_omex_params_def example_deps_def example_resolution [unfolded example_omex_params_def, simplified])
  have uuid: "dep_uuid4 example_deps = ''123e4567-e89b-12d3-a456-426614174000''"
    by (simp add: example_deps_def)
  from verify_endpoints_return_pending
         [of example_deps example_client "''runs-verification-''" _ example_runs_params,
          THEN mp, OF runs, THEN conjunct1, THEN mp, OF rq]
  have r: "\<exists>inp out.
        verify_runs example_deps example_runs_params
          = ([StartRunsVerifyWorkflow
                ''runs-verification-123e4567-e89b-12d3-a456-426614174000'' inp], Inr out)
        \<and> vo_workflow_id out = ''runs-verification-123e4567-e89b-12d3-a456-426614174000''
        \<and> vo_workflow_status out = PENDING"
    unfolding uuid by auto
  from verify_endpoints_return_pending
         [of example_deps example_client "''omex-verification-''" _ _ example_omex_params,
          THEN mp, OF omex, THEN conjunct2, THEN mp, OF vq]
  have v: "\<exists>inp out.
        verify_omex example_deps example_omex_params
          = ([StartOmexVerifyWorkflow
                ''omex-verification-123e4567-e89b-12d3-a456-426614174000'' inp], Inr out)
        \<and> wi_requested_simulators inp = [copasi_new, tellurium]
        \<and> vo_workflow_id out = ''omex-verification-123e4567-e89b-12d3-a456-426614174000''
        \<and> vo_workflow_status out = PENDING"
    unfolding uuid by auto
  from runs vq r v show ?thesis
    unfolding uuid by simp
qed


subsection \<open>Unresolvable simulators\<close>

lemma resolve_simulators_stops:
  "simulator \<in> set simulators \<Longrightarrow> resolve_simulator cat simulator = Inl e
   \<Longrightarrow> \<exists>e'. resolve_simulators cat simulators acc = Inl e'"
proof (induction simulators arbitrary: acc)
  case Nil
  then show ?case by simp
next
  case (Cons s ss)
  show ?case
  proof (cases "resolve_simulator cat s")
    case (Inl e0)
    then show ?thesis by simp
  next
    case (Inr sv)
    with Cons.prems have "simulator \<in> set ss" by auto
    with Cons.IH Cons.prems(2) have "\<exists>e'. resolve_simulators cat ss (acc @ [sv]) = Inl e'"
      by blast
    with Inr show ?thesis by simp
  qed
qed

lemma resolve_simulators_raises_from_member:
  "resolve_simulators cat simulators acc = Inl e
   \<Longrightarrow> \<exists>simulator \<in> set simulators. resolve_simulator cat simulator = Inl e"
  by (induction simulators arbitrary: acc) (auto split: sum.splits)

lemma str_split_length:
  "length (str_split c s) = Suc (length (filter (\<lambda>x. x = c) s))"
  by (induction s) (auto split: list.splits)

lemma resolve_simulator_well_formed_400:
  assumes "length (filter (\<lambda>x. x = CHR '':'') simulator) \<le> 1"
    and "resolve_simulator cat simulator = Inl e"
  shows "e = HTTPException 400 (''Simulator '' @ simulator @ '' not found.'')"
proof (cases "CHR '':'' \<in> set simulator")
  case False
  with assms(2) show ?thesis
    by (auto simp: resolve_simulator_def split: option.splits)
next
  case True
  then have "filter (\<lambda>x. x = CHR '':'') simulator \<noteq> []"
    by (simp add: filter_empty_conv)
  with assms(1) have "length (filter (\<lambda>x. x = CHR '':'') simulator) = 1"
    by (cases "filter (\<lambda>x. x = CHR '':'') simulator") auto
  then have "length (str_split CHR '':'' simulator) = 2"
    by (simp add: str_split_length)
  then obtain name version where "str_split CHR '':'' simulator = [name, version]"
    by (auto simp: length_Suc_conv numeral_2_eq_2)
  with True assms(2) show ?thesis
    by (auto simp: resolve_simulator_def split: option.splits)
qed

lemma resolve_simulator_two_colons:
  assumes "2 \<le> length (filter (\<lambda>x. x = CHR '':'') simulator)"
  shows "resolve_simulator cat simulator
           = Inl (ValueError ''too many values to unpack (expected 2)'')"
proof -
  from assms have "filter (\<lambda>x. x = CHR '':'') simulator \<noteq> []"
    by auto
  then have colon: "CHR '':'' \<in> set simulator"
    by (simp add: filter_empty_conv)
  from assms have "3 \<le> length (str_split CHR '':'' simulator)"
    by (simp add: str_split_length)
  then obtain a b c ds where "str_split CHR '':'' simulator = a # b # c # ds"
    by (auto simp: numeral_3_eq_3 Suc_le_length_iff)
  with colon show ?thesis
    by (simp add: resolve_simulator_def)
qed

lemma verify_omex_unresolved_no_dispatch:
  assumes "dep_biosim_service deps = Some (Inr cat)"
    and "simulator \<in> set (vq_simulators q)"
    and "resolve_simulator cat simulator = Inl e"
  shows "fst (verify_omex deps q) = [] \<and> (\<exists>e'. snd (verify_omex deps q) = Inl e')"
proof -
  obtain e' where "resolve_simulators cat (vq_simulators q) [] = Inl e'"
    using resolve_simulators_stops [OF assms(2,3)] by blast
  with assms(1) show ?thesis
    by (auto simp: verify_omex_def split: sum.splits)
qed

lemma verify_omex_unresolved_well_formed_400:
  assumes "dep_file_service deps" and "dep_omex_database deps"
    and "dep_cached_omex_file deps = Inr omex_file"
    and "dep_biosim_service deps = Some (Inr cat)"
    and "\<forall>s \<in> set (vq_simulators q). length (filter (\<lambda>x. x = CHR '':'') s) \<le> 1"
    and "simulator \<in> set (vq_simulators q)"
    and "resolve_simulator cat simulator = Inl e"
  shows "fst (verify_omex deps q) = [] \<and> response_status (snd (verify_omex deps q)) = 400"
proof -
  obtain e' where r: "resolve_simulators cat (vq_simulators q) [] = Inl e'"
    using resolve_simulators_stops [OF assms(6,7)] by blast
  then obtain s where "s \<in> set (vq_simulators q)" and "resolve_simulator cat s = Inl e'"
    using resolve_simulators_raises_from_member by blast
  with assms(5) have "e' = HTTPException 400 (''Simulator '' @ s @ '' not found.'')"
    by (intro resolve_simulator_well_formed_400) auto
  with r assms(1-4) show ?thesis
    by (simp add: verify_omex_def)
qed

text \<open>
  Claim C6, at a request the code can receive. The only requested simulator is
  \<open>copasi:4.45.296:latest\<close>, which no catalog entry resolves. No workflow is dispatched,
  but the request does not fail with \<open>HTTPException\<close> 400: the unpacking of the split
  raises \<open>ValueError\<close>, which the framework answers with status 500; so does every
  simulator string with two or more colons (\<open>resolve_simulator_two_colons\<close>). For
  requests whose simulators have at most one colon each,
  \<open>verify_omex_unresolved_well_formed_400\<close> above gives the status 400 the claim states,
  and \<open>verify_omex_unresolved_no_dispatch\<close> gives for every request with an unresolvable
  simulator that no workflow is dispatched.
\<close>

theorem verify_omex_two_colons:
  "verify_omex example_deps (example_omex_params\<lparr>vq_simulators := [''copasi:4.45.296:latest'']\<rparr>)
     = ([], Inl (ValueError ''too many values to unpack (expected 2)''))
   \<and> response_status
        (snd (verify_omex example_deps
           (example_omex_params\<lparr>vq_simulators := [''copasi:4.45.296:latest'']\<rparr>))) = 500"
  by (simp add: verify_omex_def resolve_simulator_def endpoint_example_defs)


subsection \<open>Retrieving the report\<close>

text \<open>
  Claim C10, as stated, fails. An unknown workflow id and an unreachable substrate both
  give status 404, but the detail of the \<open>HTTPException\<close> ends in the text of the
  exception caught, so the two answers differ. And not every exception gives a 404:
  the \<open>CancelledError\<close> of a cancelled query is no \<open>Exception\<close> and leaves the function
  uncaught.
\<close>

theorem get_verify_output_detail_differs:
  "snd (get_verify_output example_deps ''omex-verification-1'')
     = Inl (HTTPException 404
         ''error retrieving verification job output with id: omex-verification-1: workflow not found'')
   \<and> snd (get_verify_output (example_deps\<lparr>dep_temporal_client := Some unreachable_client\<rparr>)
          ''omex-verification-1'')
     = Inl (HTTPException 404
         ''error retrieving verification job output with id: omex-verification-1: connection refused'')
   \<and> snd (get_verify_output example_deps ''omex-verification-1'')
     \<noteq> snd (get_verify_output (example_deps\<lparr>dep_temporal_client := Some unreachable_client\<rparr>)
          ''omex-verification-1'')
   \<and> snd (get_verify_output (example_deps\<lparr>dep_temporal_client := Some cancelled_client\<rparr>)
          ''omex-verification-1'')
     = Inl CancelledError"
  by (simp add: get_verify_output_def endpoint_example_defs)

text \<open>
  Claim C10, amended. For every workflow id, whatever \<open>Exception\<close> the status query raises
  (the missing client's assertion included), \<open>get_verify_output\<close> raises an
  \<open>HTTPException\<close> with status code 404; its detail is the fixed text, the workflow id
  and \<open>str\<close> of the exception caught. By the status code an infrastructure failure and
  an unknown workflow id are the same; they differ only where the texts of their
  exceptions differ. A \<open>CancelledError\<close> is not caught and is raised as it is.
\<close>

theorem get_verify_output_404:
  "(dep_temporal_client deps = None
    \<longrightarrow> snd (get_verify_output deps workflow_id)
          = Inl (HTTPException 404
              (''error retrieving verification job output with id: '' @ workflow_id @ '': ''))
        \<and> response_status (snd (get_verify_output deps workflow_id)) = 404)
   \<and> (dep_temporal_client deps = Some client
        \<and> tc_query_get_output client workflow_id = Inl (RaisedException class_name exc_message)
    \<longrightarrow> snd (get_verify_output deps workflow_id)
          = Inl (HTTPException 404
              (''error retrieving verification job output with id: '' @ workflow_id @ '': ''
                 @ exc_message))
        \<and> response_status (snd (get_verify_output deps workflow_id)) = 404)
   \<and> (dep_temporal_client deps = Some client
        \<and> tc_query_get_output client workflow_id = Inl RaisedCancelledError
    \<longrightarrow> snd (get_verify_output deps workflow_id) = Inl CancelledError)"
  by (simp add: get_verify_output_def)

theorem get_verify_output_404_witness:
  "dep_temporal_client (example_deps\<lparr>dep_temporal_client := None\<rparr>) = None
   \<and> response_status
        (snd (get_verify_output (example_deps\<lparr>dep_temporal_client := None\<rparr>)
           ''omex-verification-1'')) = 404
   \<and> dep_temporal_client example_deps = Some example_client
   \<and> tc_query_get_output example_client ''omex-verification-1''
       = Inl (RaisedException ''RPCError'' ''workflow not found'')
   \<and> response_status (snd (get_verify_output example_deps ''omex-verification-1'')) = 404
   \<and> tc_query_get_output unreachable_client ''omex-verification-1''
       = Inl (RaisedException ''RPCError'' ''connection refused'')
   \<and> response_status
        (snd (get_verify_output (example_deps\<lparr>dep_temporal_client := Some unreachable_client\<rparr>)
           ''omex-verification-1'')) = 404
   \<and> tc_query_get_output cancelled_client ''omex-verification-1'' = Inl RaisedCancelledError
   \<and> snd (get_verify_output (example_deps\<lparr>dep_temporal_client := Some cancelled_client\<rparr>)
          ''omex-verification-1'')
       = Inl CancelledError"
  using get_verify_output_404
          [of "example_deps\<lparr>dep_temporal_client := None\<rparr>" "''omex-verification-1''"]
        get_verify_output_404
          [of example_deps "''omex-verification-1''" example_client
              "''RPCError''" "''workflow not found''"]
        get_verify_output_404
          [of "example_deps\<lparr>dep_temporal_client := Some unreachable_client\<rparr>"
              "''omex-verification-1''" unreachable_client
              "''RPCError''" "''connection refused''"]
        get_verify_output_404
          [of "example_deps\<lparr>dep_temporal_client := Some cancelled_client\<rparr>"
              "''omex-verification-1''" cancelled_client]
  by (simp add: endpoint_example_defs)

end
